theory Spec2Isabelle
  imports Main
begin

section \<open>JavaScript values used by the components\<close>

text \<open>
  The components read untyped pass-through attributes and combine them with the
  JavaScript operators \<open>||\<close>, \<open>&&\<close>, \<open>===\<close> and \<open>!==\<close>. The values that can reach these
  operators are modelled by a small datatype; numbers are integers (no NaN), and any
  object or function is the single value \<open>JObj\<close>, which is all its truthiness needs.
\<close>

datatype jsval = JUndefined | JNull | JBool bool | JNum int | JStr string | JObj

fun truthy :: "jsval \<Rightarrow> bool" where
  "truthy JUndefined = False"
| "truthy JNull = False"
| "truthy (JBool b) = b"
| "truthy (JNum n) = (n \<noteq> 0)"
| "truthy (JStr s) = (s \<noteq> [])"
| "truthy JObj = True"

text \<open>\<open>a || b\<close> and \<open>a && b\<close> return one of their operands, not a boolean.\<close>

definition js_or :: "jsval \<Rightarrow> jsval \<Rightarrow> jsval" where
  "js_or a b = (if truthy a then a else b)"

definition js_and :: "jsval \<Rightarrow> jsval \<Rightarrow> jsval" where
  "js_and a b = (if truthy a then b else a)"

text \<open>\<open>Array.prototype.includes\<close> on an array of string literals.\<close>

definition array_includes :: "string list \<Rightarrow> string \<Rightarrow> bool" where
  "array_includes xs x = (x \<in> set xs)"

text \<open>\<open>String.prototype.startsWith\<close>.\<close>

definition startsWith :: "string \<Rightarrow> string \<Rightarrow> bool" where
  "startsWith s p = (take (length p) s = p)"

text \<open>
  \<open>Array.prototype.join\<close>: the result starts empty; before every element but the first
  the separator is appended, then the element.
\<close>

fun join_from :: "string \<Rightarrow> string \<Rightarrow> string list \<Rightarrow> string" where
  "join_from sep r [] = r"
| "join_from sep r (x # xs) = join_from sep (r @ sep @ x) xs"

fun join :: "string \<Rightarrow> string list \<Rightarrow> string" where
  "join sep [] = []"
| "join sep (x # xs) = join_from sep x xs"

section \<open>VButton.vue\<close>

text \<open>
  The props of the component. \<open>pressed\<close> is the only prop whose default is
  \<open>undefined\<close>; the boolean props default to \<open>false\<close>. The types \<open>ButtonForm\<close>,
  \<open>ButtonVariant\<close>, \<open>ButtonSize\<close>, \<open>ButtonType\<close> and \<open>ButtonConnections\<close> are string
  unions declared outside the component, so the fields are strings.
\<close>

record props =
  as :: string
  variant :: string
  pressed :: "bool option"
  size :: string
  disabled :: bool
  focusableWhenDisabled :: bool
  type :: string
  connections :: "string list"
  hasIconStart :: bool
  hasIconEnd :: bool
  iconOnly :: bool

text \<open>\<open>withDefaults\<close>: \<open>variant\<close> and \<open>size\<close> are required, the rest have defaults.\<close>

definition withDefaults :: "string \<Rightarrow> string \<Rightarrow> props" where
  "withDefaults v s =
     \<lparr> as = ''button'', variant = v, pressed = None, size = s, disabled = False,
       focusableWhenDisabled = False, type = ''button'', connections = [],
       hasIconStart = False, hasIconEnd = False, iconOnly = False \<rparr>"

text \<open>The pass-through attributes of \<open>useAttrs()\<close>; a missing key reads \<open>undefined\<close>.\<close>

type_synonym attrs = "string \<rightharpoonup> jsval"

definition attr :: "attrs \<Rightarrow> string \<Rightarrow> jsval" where
  "attr a k = (case a k of None \<Rightarrow> JUndefined | Some v \<Rightarrow> v)"

definition js_of_flag :: "bool option \<Rightarrow> jsval" where
  "js_of_flag f = (case f of None \<Rightarrow> JUndefined | Some b \<Rightarrow> JBool b)"

datatype component = VLink | Native string

definition buttonComponent :: "props \<Rightarrow> component" where
  "buttonComponent p = (if as p = ''VLink'' then VLink else Native (as p))"

definition typeAttribute :: "props \<Rightarrow> string option" where
  "typeAttribute p = (if array_includes [''VLink'', ''a''] (as p) then None else Some (type p))"

definition supportsDisabledAttribute :: "props \<Rightarrow> bool" where
  "supportsDisabledAttribute p = (as p \<noteq> ''VLink'')"

definition ariaDisabled :: "props \<Rightarrow> jsval" where
  "ariaDisabled p =
     js_or (js_and (JBool (disabled p)) (JBool (focusableWhenDisabled p))) JUndefined"

definition disabledAttribute :: "props \<Rightarrow> jsval" where
  "disabledAttribute p =
     (let trulyDisabled = js_and (JBool (disabled p)) (JBool (\<not> focusableWhenDisabled p))
      in js_or (js_and trulyDisabled (JBool (supportsDisabledAttribute p))) JUndefined)"

definition connectionStyles :: "props \<Rightarrow> string" where
  "connectionStyles p = join '' '' (map (\<lambda>connection. ''connection-'' @ connection) (connections p))"

definition isActive :: "props \<Rightarrow> attrs \<Rightarrow> jsval" where
  "isActive p a =
     js_or (js_or (js_of_flag (pressed p)) (attr a ''aria-pressed'')) (attr a ''aria-expanded'')"

definition variantClass :: "props \<Rightarrow> attrs \<Rightarrow> string" where
  "variantClass p a =
     (if truthy (isActive p a) \<and>
         array_includes [''bordered-white'', ''bordered-tx'', ''transparent-dark''] (variant p)
      then variant p @ ''-pressed''
      else variant p)"

definition isPlainDangerous :: "props \<Rightarrow> bool" where
  "isPlainDangerous p = (variant p = ''plain--avoid'')"

definition isFocusSlimFilled :: "props \<Rightarrow> bool" where
  "isFocusSlimFilled p = startsWith (variant p) ''filled-''"

definition isFocusSlimTx :: "props \<Rightarrow> bool" where
  "isFocusSlimTx p =
     (startsWith (variant p) ''bordered-'' \<or>
      startsWith (variant p) ''transparent-'' \<or>
      variant p = ''plain'')"

definition linkProps :: "props \<Rightarrow> attrs \<Rightarrow> attrs" where
  "linkProps p a = (if as p = ''VLink'' then [''href'' \<mapsto> attr a ''href''] else Map.empty)"

text \<open>
  The object in the template's \<open>:class\<close> binding: each class with its condition, in the
  order of the template. \<open>conditionalClasses\<close> keeps the classes whose condition holds.
\<close>

definition classObject :: "props \<Rightarrow> (string \<times> bool) list" where
  "classObject p =
     [(''icon-only'', iconOnly p),
      (''icon-start'', hasIconStart p),
      (''icon-end'', hasIconEnd p),
      (''border'', \<not> isPlainDangerous p),
      (''focus-visible:outline-tx'', isPlainDangerous p),
      (''focus-slim-filled'', isFocusSlimFilled p),
      (''focus-slim-tx'', isFocusSlimTx p)]"

definition conditionalClasses :: "props \<Rightarrow> string list" where
  "conditionalClasses p = map fst (filter snd (classObject p))"

text \<open>
  The bindings the template puts on the root \<open>Component\<close>. The pass-through
  attributes, which reach the root as well, are added in \<open>rootAttributes\<close> below.
\<close>

record bindings =
  is_binding :: component
  type_binding :: "string option"
  class_binding :: "string list"
  aria_pressed_binding :: "bool option"
  aria_disabled_binding :: jsval
  disabled_binding :: jsval
  link_binding :: attrs

definition template :: "props \<Rightarrow> attrs \<Rightarrow> bindings" where
  "template p a =
     \<lparr> is_binding = buttonComponent p,
       type_binding = typeAttribute p,
       class_binding = [variantClass p a, connectionStyles p, size p] @ conditionalClasses p,
       aria_pressed_binding = pressed p,
       aria_disabled_binding = ariaDisabled p,
       disabled_binding = disabledAttribute p,
       link_binding = linkProps p a \<rparr>"

subsection \<open>Attributes on the rendered root\<close>

text \<open>
  The component has a single root and leaves \<open>inheritAttrs\<close> at its default, so the
  pass-through attributes are put on the root as well. An attribute passed under the
  name of a declared prop, in camel case or kebab case, is taken as that prop and is
  never a pass-through attribute. \<open>class\<close> and \<open>style\<close> are merged into the root's own
  class and style and are left out here; for every other key the value passed by the
  parent replaces the value bound by the template.
\<close>

definition declaredProps :: "string list" where
  "declaredProps =
     [''as'', ''variant'', ''pressed'', ''size'', ''disabled'',
      ''focusableWhenDisabled'', ''focusable-when-disabled'', ''type'', ''connections'',
      ''hasIconStart'', ''has-icon-start'', ''hasIconEnd'', ''has-icon-end'',
      ''iconOnly'', ''icon-only'']"

definition fallthrough :: "attrs \<Rightarrow> attrs" where
  "fallthrough a =
     (\<lambda>k. if k \<in> set declaredProps \<or> k = ''class'' \<or> k = ''style'' then None else a k)"

text \<open>The template's bindings as attributes, in the order of the template.\<close>

definition boundAttributes :: "props \<Rightarrow> attrs \<Rightarrow> attrs" where
  "boundAttributes p a =
     [''type'' \<mapsto> (case type_binding (template p a) of None \<Rightarrow> JUndefined | Some t \<Rightarrow> JStr t),
      ''aria-pressed'' \<mapsto> js_of_flag (aria_pressed_binding (template p a)),
      ''aria-disabled'' \<mapsto> aria_disabled_binding (template p a),
      ''disabled'' \<mapsto> disabled_binding (template p a)]
     ++ link_binding (template p a)"

definition rootAttributes :: "props \<Rightarrow> attrs \<Rightarrow> attrs" where
  "rootAttributes p a = boundAttributes p a ++ fallthrough a"

text \<open>
  An attribute is rendered when it has a value other than \<open>undefined\<close> and \<open>null\<close>. (The
  native \<open>disabled\<close> is also dropped when \<open>false\<close>; its value here is only ever \<open>true\<close> or
  \<open>undefined\<close>.)
\<close>

definition emitted :: "attrs \<Rightarrow> string \<Rightarrow> bool" where
  "emitted m k = (case m k of None \<Rightarrow> False | Some v \<Rightarrow> v \<noteq> JUndefined \<and> v \<noteq> JNull)"

subsection \<open>The watcher on \<open>props.as\<close>\<close>

text \<open>
  The callback of the watcher. The console is the list of warnings printed so far;
  \<open>skipToContentTargetId\<close> is a constant imported from outside the component and is a
  parameter here.
\<close>

definition warning :: "string \<Rightarrow> string" where
  "warning as' =
     ''Please use `VLink` with an `href` prop instead of '' @ as' @ '' for the button component''"

definition on_as :: "string \<Rightarrow> attrs \<Rightarrow> string \<Rightarrow> string list \<Rightarrow> string list" where
  "on_as skipToContentTargetId a as' console =
     (if array_includes [''a'', ''NuxtLink''] as' \<and>
         attr a ''href'' \<noteq> JStr (''#'' @ skipToContentTargetId)
      then console @ [warning as']
      else console)"

text \<open>
  \<open>watch(() => props.as, callback, { immediate: true })\<close>: the callback runs once when
  the component is set up, and then after every update in which the watched value
  differs from the value seen last.
\<close>

record watcher =
  seen :: string
  console :: "string list"

definition setup_watch :: "string \<Rightarrow> attrs \<Rightarrow> props \<Rightarrow> watcher" where
  "setup_watch skipToContentTargetId a p =
     \<lparr> seen = as p, console = on_as skipToContentTargetId a (as p) [] \<rparr>"

definition update_watch :: "string \<Rightarrow> attrs \<Rightarrow> props \<Rightarrow> watcher \<Rightarrow> watcher" where
  "update_watch skipToContentTargetId a p w =
     (if as p = seen w then w
      else \<lparr> seen = as p, console = on_as skipToContentTargetId a (as p) (console w) \<rparr>)"

text \<open>
  The life of one component: set-up with the first render's attributes and props, then
  one update for each later render, in order.
\<close>

fun updates :: "string \<Rightarrow> watcher \<Rightarrow> (attrs \<times> props) list \<Rightarrow> watcher" where
  "updates skipToContentTargetId w [] = w"
| "updates skipToContentTargetId w ((a, p) # rs) =
     updates skipToContentTargetId (update_watch skipToContentTargetId a p w) rs"

definition lifetime :: "string \<Rightarrow> attrs \<times> props \<Rightarrow> (attrs \<times> props) list \<Rightarrow> watcher" where
  "lifetime skipToContentTargetId r rs =
     updates skipToContentTargetId (setup_watch skipToContentTargetId (fst r) (snd r)) rs"

section \<open>VSafetyWall.vue\<close>

record wall_props =
  sensitivity :: "string list"
  id_prop :: string

text \<open>
  What the handlers do to the outside: a call of \<open>$sendCustomEvent\<close> with the event
  name and the payload object, or an \<open>emit\<close> of a component event with its arguments.
\<close>

datatype effect =
  SendCustomEvent string "(string \<times> string) list"
| Emit string "jsval list"

definition handleBack :: "wall_props \<Rightarrow> effect list \<Rightarrow> effect list" where
  "handleBack p fx =
     fx @ [SendCustomEvent ''GO_BACK_FROM_SENSITIVE_RESULT''
             [(''id'', id_prop p), (''sensitivities'', join '','' (sensitivity p))]]"

definition handleShow :: "wall_props \<Rightarrow> effect list \<Rightarrow> effect list" where
  "handleShow p fx = fx @ [Emit ''reveal'' []]"

text \<open>
  The two buttons of the template. \<open>backToSearchPath\<close> is read from the search store,
  which is outside the component; it is a parameter, and any JavaScript value.
\<close>

definition back_button_props :: props where
  "back_button_props = (withDefaults ''filled-dark'' ''large'') \<lparr> as := ''VLink'' \<rparr>"

definition back_button_attrs :: "jsval \<Rightarrow> attrs" where
  "back_button_attrs backToSearchPath =
     [''class'' \<mapsto> JStr ''label-bold'', ''href'' \<mapsto> js_or backToSearchPath (JStr ''/'')]"

definition show_button_props :: props where
  "show_button_props = (withDefaults ''bordered-gray'' ''large'') \<lparr> hasIconEnd := True \<rparr>"

definition show_button_attrs :: attrs where
  "show_button_attrs = [''class'' \<mapsto> JStr ''label-bold'']"

text \<open>The events a button re-emits, and the listeners the wall puts on each button.\<close>

datatype button_event = Click | Mousedown | Keydown | Focus | Blur

fun back_button_on :: "button_event \<Rightarrow> wall_props \<Rightarrow> effect list \<Rightarrow> effect list" where
  "back_button_on Mousedown p fx = handleBack p fx"
| "back_button_on _ p fx = fx"

fun show_button_on :: "button_event \<Rightarrow> wall_props \<Rightarrow> effect list \<Rightarrow> effect list" where
  "show_button_on Click p fx = handleShow p fx"
| "show_button_on _ p fx = fx"

fun is_analytics :: "effect \<Rightarrow> bool" where
  "is_analytics (SendCustomEvent _ _) = True"
| "is_analytics (Emit _ _) = False"

fun is_signal :: "effect \<Rightarrow> bool" where
  "is_signal (SendCustomEvent _ _) = False"
| "is_signal (Emit _ _) = True"

section \<open>The specification's joined strings\<close>

text \<open>
  The specification speaks of tokens joined by a separator, in input order. This is that
  description, written directly; \<open>join\<close> above is the loop of the language.
\<close>

fun separated :: "string \<Rightarrow> string list \<Rightarrow> string" where
  "separated sep [] = []"
| "separated sep [x] = x"
| "separated sep (x # y # ys) = x @ sep @ separated sep (y # ys)"

section \<open>The specification's warnings\<close>

text \<open>
  The specification asks for one warning for each change of the rendering form, the
  first render included, when the form is the raw hyperlink or the router link and the
  \<open>href\<close> is not the skip-to-content fragment. \<open>warnings_per_change\<close> lists those
  warnings for a sequence of renders; \<open>prev\<close> is the form of the render before, if any.
\<close>

definition needs_warning :: "string \<Rightarrow> attrs \<Rightarrow> string \<Rightarrow> bool" where
  "needs_warning sid a form =
     ((form = ''a'' \<or> form = ''NuxtLink'') \<and> attr a ''href'' \<noteq> JStr (''#'' @ sid))"

fun warnings_per_change :: "string \<Rightarrow> string option \<Rightarrow> (attrs \<times> props) list \<Rightarrow> string list" where
  "warnings_per_change sid prev [] = []"
| "warnings_per_change sid prev ((a, p) # rs) =
     (if prev \<noteq> Some (as p) \<and> needs_warning sid a (as p) then [warning (as p)] else [])
     @ warnings_per_change sid (Some (as p)) rs"

lemma join_from_concat: "join_from sep r xs = r @ concat (map (\<lambda>x. sep @ x) xs)"
  by (induction xs arbitrary: r) simp_all

lemma separated_Cons: "separated sep (x # xs) = x @ concat (map (\<lambda>y. sep @ y) xs)"
  by (induction xs arbitrary: x) simp_all

lemma join_separated: "join sep xs = separated sep xs"
  by (cases xs) (simp_all add: join_from_concat separated_Cons)


section \<open>Disabled state\<close>

lemma ariaDisabled_eq:
  "ariaDisabled p = (if disabled p \<and> focusableWhenDisabled p then JBool True else JUndefined)"
  by (simp add: ariaDisabled_def js_or_def js_and_def)

lemma disabledAttribute_eq:
  "disabledAttribute p =
     (if disabled p \<and> \<not> focusableWhenDisabled p \<and> as p \<noteq> ''VLink''
      then JBool True else JUndefined)"
  by (simp add: disabledAttribute_def supportsDisabledAttribute_def js_or_def js_and_def Let_def)

lemma root_disabled: "rootAttributes p a ''disabled'' = Some (disabledAttribute p)"
  by (simp add: rootAttributes_def boundAttributes_def fallthrough_def declaredProps_def
        template_def linkProps_def map_add_def)

lemma root_aria_disabled:
  "rootAttributes p a ''aria-disabled'' =
     (case a ''aria-disabled'' of None \<Rightarrow> Some (ariaDisabled p) | Some v \<Rightarrow> Some v)"
  by (simp add: rootAttributes_def boundAttributes_def fallthrough_def declaredProps_def
        template_def linkProps_def map_add_def split: option.splits)

text \<open>
  Claim C1, amended. When \<open>disabled\<close> is true, the native \<open>disabled\<close> attribute is as the
  claim says for every input: absent with \<open>focusableWhenDisabled\<close>, absent on the
  \<open>VLink\<close> form, present on the \<open>button\<close> form. The \<open>aria-disabled\<close> part holds when the
  parent passes no \<open>aria-disabled\<close> attribute of its own: then it is \<open>true\<close> with
  \<open>focusableWhenDisabled\<close>, and absent without it on the \<open>VLink\<close> and \<open>button\<close> forms.
  When the parent does pass \<open>aria-disabled\<close>, the rendered control carries the parent's
  value in place of the component's.
\<close>

theorem disabled_resolution:
  "disabled p \<Longrightarrow>
     (focusableWhenDisabled p \<longrightarrow>
        \<not> emitted (rootAttributes p a) ''disabled'' \<and>
        (a ''aria-disabled'' = None \<longrightarrow>
           rootAttributes p a ''aria-disabled'' = Some (JBool True) \<and>
           emitted (rootAttributes p a) ''aria-disabled'')) \<and>
     (\<not> focusableWhenDisabled p \<and> as p = ''VLink'' \<longrightarrow>
        \<not> emitted (rootAttributes p a) ''disabled'' \<and>
        (a ''aria-disabled'' = None \<longrightarrow> \<not> emitted (rootAttributes p a) ''aria-disabled'')) \<and>
     (\<not> focusableWhenDisabled p \<and> as p = ''button'' \<longrightarrow>
        rootAttributes p a ''disabled'' = Some (JBool True) \<and>
        emitted (rootAttributes p a) ''disabled'' \<and>
        (a ''aria-disabled'' = None \<longrightarrow> \<not> emitted (rootAttributes p a) ''aria-disabled'')) \<and>
     (a ''aria-disabled'' \<noteq> None \<longrightarrow>
        rootAttributes p a ''aria-disabled'' = a ''aria-disabled'')"
  by (auto simp: root_disabled root_aria_disabled emitted_def ariaDisabled_eq
        disabledAttribute_eq)

theorem disabled_resolution_witness:
  "disabled ((withDefaults ''filled-dark'' ''medium'') \<lparr> disabled := True \<rparr>) \<and>
   rootAttributes ((withDefaults ''filled-dark'' ''medium'') \<lparr> disabled := True \<rparr>)
     [''aria-label'' \<mapsto> JStr ''Save''] ''disabled'' = Some (JBool True) \<and>
   \<not> emitted (rootAttributes ((withDefaults ''filled-dark'' ''medium'') \<lparr> disabled := True \<rparr>)
                [''aria-label'' \<mapsto> JStr ''Save'']) ''aria-disabled'' \<and>
   rootAttributes
     ((withDefaults ''filled-dark'' ''medium'') \<lparr> disabled := True, focusableWhenDisabled := True \<rparr>)
     [''aria-label'' \<mapsto> JStr ''Save''] ''aria-disabled'' = Some (JBool True) \<and>
   \<not> emitted (rootAttributes
                ((withDefaults ''filled-dark'' ''medium'')
                   \<lparr> disabled := True, focusableWhenDisabled := True \<rparr>)
                [''aria-label'' \<mapsto> JStr ''Save'']) ''disabled'' \<and>
   \<not> emitted (rootAttributes
                ((withDefaults ''filled-dark'' ''medium'') \<lparr> disabled := True, as := ''VLink'' \<rparr>)
                [''href'' \<mapsto> JStr ''/about'']) ''disabled'' \<and>
   \<not> emitted (rootAttributes
                ((withDefaults ''filled-dark'' ''medium'') \<lparr> disabled := True, as := ''VLink'' \<rparr>)
                [''href'' \<mapsto> JStr ''/about'']) ''aria-disabled'' \<and>
   rootAttributes ((withDefaults ''filled-dark'' ''medium'') \<lparr> disabled := True \<rparr>)
     [''aria-disabled'' \<mapsto> JStr ''true''] ''aria-disabled'' = Some (JStr ''true'')"
  using disabled_resolution
          [of "(withDefaults ''filled-dark'' ''medium'') \<lparr> disabled := True \<rparr>"
              "[''aria-label'' \<mapsto> JStr ''Save'']"]
        disabled_resolution
          [of "(withDefaults ''filled-dark'' ''medium'')
                 \<lparr> disabled := True, focusableWhenDisabled := True \<rparr>"
              "[''aria-label'' \<mapsto> JStr ''Save'']"]
        disabled_resolution
          [of "(withDefaults ''filled-dark'' ''medium'') \<lparr> disabled := True, as := ''VLink'' \<rparr>"
              "[''href'' \<mapsto> JStr ''/about'']"]
        disabled_resolution
          [of "(withDefaults ''filled-dark'' ''medium'') \<lparr> disabled := True \<rparr>"
              "[''aria-disabled'' \<mapsto> JStr ''true'']"]
  by (simp add: withDefaults_def)

text \<open>
  Claim C1 as stated fails: a disabled \<open>button\<close> that is not focusable when disabled,
  given \<open>aria-disabled="true"\<close> by its parent, is rendered with the native \<open>disabled\<close>
  attribute and with \<open>aria-disabled\<close>.
\<close>

theorem disabled_resolution_counterexample:
  "disabled ((withDefaults ''filled-dark'' ''medium'') \<lparr> disabled := True \<rparr>) \<and>
   \<not> focusableWhenDisabled ((withDefaults ''filled-dark'' ''medium'') \<lparr> disabled := True \<rparr>) \<and>
   as ((withDefaults ''filled-dark'' ''medium'') \<lparr> disabled := True \<rparr>) = ''button'' \<and>
   emitted (rootAttributes ((withDefaults ''filled-dark'' ''medium'') \<lparr> disabled := True \<rparr>)
              [''aria-disabled'' \<mapsto> JStr ''true'']) ''disabled'' \<and>
   emitted (rootAttributes ((withDefaults ''filled-dark'' ''medium'') \<lparr> disabled := True \<rparr>)
              [''aria-disabled'' \<mapsto> JStr ''true'']) ''aria-disabled''"
  by (simp add: withDefaults_def emitted_def rootAttributes_def boundAttributes_def
        fallthrough_def declaredProps_def template_def linkProps_def map_add_def
        disabledAttribute_eq ariaDisabled_eq)

text \<open>
  Claim C8. With the raw hyperlink form \<open>a\<close>, \<open>disabled\<close> true and
  \<open>focusableWhenDisabled\<close> false, the native \<open>disabled\<close> attribute is emitted: only the
  \<open>VLink\<close> form suppresses it.
\<close>

theorem raw_anchor_disabled:
  "as p = ''a'' \<and> disabled p \<and> \<not> focusableWhenDisabled p \<Longrightarrow>
     supportsDisabledAttribute p \<and>
     disabledAttribute p = JBool True \<and>
     disabled_binding (template p a) = JBool True"
  by (simp add: template_def disabledAttribute_eq supportsDisabledAttribute_def)

theorem raw_anchor_disabled_witness:
  "(let p = (withDefaults ''filled-dark'' ''medium'') \<lparr> as := ''a'', disabled := True \<rparr>
    in as p = ''a'' \<and> disabled p \<and> \<not> focusableWhenDisabled p \<and>
       disabled_binding (template p Map.empty) = JBool True)"
  using raw_anchor_disabled
          [of "(withDefaults ''filled-dark'' ''medium'') \<lparr> as := ''a'', disabled := True \<rparr>"
              Map.empty]
  by (simp add: withDefaults_def Let_def)

text \<open>
  Claim C9, amended. The component's own two bindings are never both set. On the
  rendered control \<open>aria-disabled\<close> and the native \<open>disabled\<close> attribute are both present
  exactly when the control is disabled, not focusable when disabled, on a form other
  than \<open>VLink\<close>, and the parent passes an \<open>aria-disabled\<close> attribute of its own with a
  value other than \<open>undefined\<close> and \<open>null\<close>. So for every rendering form and every value
  of \<open>disabled\<close> and \<open>focusableWhenDisabled\<close>, when the parent passes no \<open>aria-disabled\<close>
  at most one of the two is present.
\<close>

theorem never_both_disabled:
  "(emitted (rootAttributes p a) ''aria-disabled'' \<and> emitted (rootAttributes p a) ''disabled''
      \<longleftrightarrow> disabled p \<and> \<not> focusableWhenDisabled p \<and> as p \<noteq> ''VLink'' \<and>
          emitted a ''aria-disabled'') \<and>
   (a ''aria-disabled'' = None \<longrightarrow>
      \<not> (emitted (rootAttributes p a) ''aria-disabled'' \<and>
         emitted (rootAttributes p a) ''disabled'')) \<and>
   \<not> (aria_disabled_binding (template p a) \<noteq> JUndefined \<and>
      disabled_binding (template p a) \<noteq> JUndefined)"
  by (auto simp: root_disabled root_aria_disabled emitted_def ariaDisabled_eq
        disabledAttribute_eq template_def split: option.splits)

theorem never_both_disabled_witness:
  "[''aria-label'' \<mapsto> JStr ''Save''] ''aria-disabled'' = None \<and>
   emitted (rootAttributes ((withDefaults ''bordered-gray'' ''large'') \<lparr> disabled := True \<rparr>)
              [''aria-label'' \<mapsto> JStr ''Save'']) ''disabled'' \<and>
   \<not> emitted (rootAttributes ((withDefaults ''bordered-gray'' ''large'') \<lparr> disabled := True \<rparr>)
              [''aria-label'' \<mapsto> JStr ''Save'']) ''aria-disabled'' \<and>
   emitted (rootAttributes
              ((withDefaults ''bordered-gray'' ''large'')
                 \<lparr> disabled := True, focusableWhenDisabled := True \<rparr>)
              [''aria-label'' \<mapsto> JStr ''Save'']) ''aria-disabled'' \<and>
   \<not> emitted (rootAttributes
              ((withDefaults ''bordered-gray'' ''large'')
                 \<lparr> disabled := True, focusableWhenDisabled := True \<rparr>)
              [''aria-label'' \<mapsto> JStr ''Save'']) ''disabled''"
  using never_both_disabled
          [of "(withDefaults ''bordered-gray'' ''large'') \<lparr> disabled := True \<rparr>"
              "[''aria-label'' \<mapsto> JStr ''Save'']"]
        never_both_disabled
          [of "(withDefaults ''bordered-gray'' ''large'')
                 \<lparr> disabled := True, focusableWhenDisabled := True \<rparr>"
              "[''aria-label'' \<mapsto> JStr ''Save'']"]
  by (simp add: withDefaults_def emitted_def root_disabled root_aria_disabled
        ariaDisabled_eq disabledAttribute_eq)

text \<open>
  Claim C9 as stated fails: a disabled \<open>button\<close> whose parent passes \<open>aria-disabled\<close> is
  rendered with both attributes.
\<close>

theorem never_both_disabled_counterexample:
  "emitted (rootAttributes ((withDefaults ''bordered-gray'' ''large'') \<lparr> disabled := True \<rparr>)
              [''aria-disabled'' \<mapsto> JBool True]) ''aria-disabled'' \<and>
   emitted (rootAttributes ((withDefaults ''bordered-gray'' ''large'') \<lparr> disabled := True \<rparr>)
              [''aria-disabled'' \<mapsto> JBool True]) ''disabled''"
  by (simp add: withDefaults_def emitted_def rootAttributes_def boundAttributes_def
        fallthrough_def declaredProps_def template_def linkProps_def map_add_def
        disabledAttribute_eq ariaDisabled_eq)

section \<open>Pressed state and variant class\<close>

text \<open>
  Claim C2. The control is active exactly when \<open>pressed\<close> is true or the ambient
  \<open>aria-pressed\<close> or \<open>aria-expanded\<close> attribute is truthy. When it is active and the variant
  is \<open>bordered-white\<close>, \<open>bordered-tx\<close> or \<open>transparent-dark\<close>, the variant class is the
  variant followed by \<open>-pressed\<close>; when it is not active, or the variant is any other
  value, \<open>plain--avoid\<close> among them, the variant class is the variant itself.
\<close>

theorem active_variant:
  "(truthy (isActive p a) \<longleftrightarrow>
      pressed p = Some True \<or> truthy (attr a ''aria-pressed'') \<or>
      truthy (attr a ''aria-expanded'')) \<and>
   (truthy (isActive p a) \<and>
      variant p \<in> {''bordered-white'', ''bordered-tx'', ''transparent-dark''} \<longrightarrow>
      variantClass p a = variant p @ ''-pressed'') \<and>
   (\<not> truthy (isActive p a) \<or>
      variant p \<notin> {''bordered-white'', ''bordered-tx'', ''transparent-dark''} \<longrightarrow>
      variantClass p a = variant p) \<and>
   variantClass (p \<lparr> variant := ''plain--avoid'' \<rparr>) a = ''plain--avoid''"
proof -
  have act: "truthy (isActive p a) \<longleftrightarrow>
      pressed p = Some True \<or> truthy (attr a ''aria-pressed'') \<or>
      truthy (attr a ''aria-expanded'')"
    by (cases "pressed p") (auto simp: isActive_def js_or_def js_of_flag_def)
  have plain: "variantClass (p \<lparr> variant := ''plain--avoid'' \<rparr>) a = ''plain--avoid''"
    by (simp add: variantClass_def array_includes_def)
  show ?thesis
    using act plain by (auto simp: variantClass_def array_includes_def)
qed

theorem active_variant_witness:
  "(let p = withDefaults ''bordered-tx'' ''medium'';
        a = [''aria-expanded'' \<mapsto> JStr ''true'']
    in truthy (isActive p a) \<and> pressed p = None \<and>
       variantClass p a = ''bordered-tx-pressed'' \<and>
       \<not> truthy (isActive p Map.empty) \<and>
       variantClass p Map.empty = ''bordered-tx'' \<and>
       variantClass (p \<lparr> variant := ''filled-dark'' \<rparr>) a = ''filled-dark'')"
  using active_variant
          [of "withDefaults ''bordered-tx'' ''medium''" "[''aria-expanded'' \<mapsto> JStr ''true'']"]
        active_variant [of "withDefaults ''bordered-tx'' ''medium''" Map.empty]
        active_variant
          [of "(withDefaults ''bordered-tx'' ''medium'') \<lparr> variant := ''filled-dark'' \<rparr>"
              "[''aria-expanded'' \<mapsto> JStr ''true'']"]
  by (simp add: withDefaults_def Let_def attr_def)

section \<open>Type attribute\<close>

text \<open>
  Claim C5. The \<open>type\<close> attribute is the \<open>type\<close> prop when the rendering form is
  \<open>button\<close>, and is absent when the rendering form is \<open>VLink\<close> or \<open>a\<close>.
\<close>

theorem type_attribute:
  "(as p = ''button'' \<longrightarrow> type_binding (template p a) = Some (type p)) \<and>
   (as p = ''VLink'' \<or> as p = ''a'' \<longrightarrow> type_binding (template p a) = None)"
  by (auto simp: template_def typeAttribute_def array_includes_def)

theorem type_attribute_witness:
  "(let p = (withDefaults ''filled-dark'' ''medium'') \<lparr> type := ''submit'' \<rparr>
    in as p = ''button'' \<and> type_binding (template p Map.empty) = Some ''submit'' \<and>
       type_binding (template (p \<lparr> as := ''VLink'' \<rparr>) Map.empty) = None \<and>
       type_binding (template (p \<lparr> as := ''a'' \<rparr>) Map.empty) = None)"
  using type_attribute
          [of "(withDefaults ''filled-dark'' ''medium'') \<lparr> type := ''submit'' \<rparr>" Map.empty]
        type_attribute
          [of "(withDefaults ''filled-dark'' ''medium'') \<lparr> type := ''submit'', as := ''VLink'' \<rparr>"
              Map.empty]
        type_attribute
          [of "(withDefaults ''filled-dark'' ''medium'') \<lparr> type := ''submit'', as := ''a'' \<rparr>"
              Map.empty]
  by (simp add: withDefaults_def Let_def)

section \<open>Connection classes\<close>

text \<open>
  Claim C7. The connection class string is the tokens \<open>connection-c\<close>, one for each
  connection flag \<open>c\<close>, joined by single spaces in input order; the list
  \<open>[start, bottom]\<close> gives \<open>connection-start connection-bottom\<close>.
\<close>

theorem connection_classes:
  "connectionStyles p = separated '' '' (map (\<lambda>c. ''connection-'' @ c) (connections p)) \<and>
   connectionStyles (p \<lparr> connections := [''start'', ''bottom''] \<rparr>) =
     ''connection-start connection-bottom''"
  by (simp add: connectionStyles_def join_separated)

section \<open>Focus ring classes\<close>

text \<open>
  Claim C10. For every variant string the conditions of the classes \<open>focus-slim-filled\<close>
  and \<open>focus-slim-tx\<close> never hold together, so at most one of the two classes is
  applied; the variant \<open>plain--avoid\<close> satisfies neither condition.
\<close>

theorem focus_ring_exclusive:
  "\<not> (isFocusSlimFilled p \<and> isFocusSlimTx p) \<and>
   \<not> (''focus-slim-filled'' \<in> set (conditionalClasses p) \<and>
      ''focus-slim-tx'' \<in> set (conditionalClasses p)) \<and>
   \<not> isFocusSlimFilled (p \<lparr> variant := ''plain--avoid'' \<rparr>) \<and>
   \<not> isFocusSlimTx (p \<lparr> variant := ''plain--avoid'' \<rparr>)"
proof -
  have ex: "\<not> (isFocusSlimFilled p \<and> isFocusSlimTx p)"
    by (cases "variant p") (auto simp: isFocusSlimFilled_def isFocusSlimTx_def startsWith_def)
  have cls: "''focus-slim-filled'' \<in> set (conditionalClasses p) \<longleftrightarrow> isFocusSlimFilled p"
            "''focus-slim-tx'' \<in> set (conditionalClasses p) \<longleftrightarrow> isFocusSlimTx p"
    by (auto simp: conditionalClasses_def classObject_def)
  have pl: "\<not> isFocusSlimFilled (p \<lparr> variant := ''plain--avoid'' \<rparr>)"
           "\<not> isFocusSlimTx (p \<lparr> variant := ''plain--avoid'' \<rparr>)"
    by (simp_all add: isFocusSlimFilled_def isFocusSlimTx_def startsWith_def)
  show ?thesis using ex cls pl by simp
qed

theorem focus_ring_exclusive_witness:
  "isFocusSlimFilled (withDefaults ''filled-dark'' ''large'') \<and>
   \<not> isFocusSlimTx (withDefaults ''filled-dark'' ''large'') \<and>
   isFocusSlimTx (withDefaults ''plain'' ''large'') \<and>
   \<not> isFocusSlimFilled (withDefaults ''plain'' ''large'') \<and>
   conditionalClasses (withDefaults ''transparent-gray'' ''large'') =
     [''border'', ''focus-slim-tx'']"
  using focus_ring_exclusive [of "withDefaults ''filled-dark'' ''large''"]
        focus_ring_exclusive [of "withDefaults ''plain'' ''large''"]
  by (simp add: withDefaults_def isFocusSlimFilled_def isFocusSlimTx_def startsWith_def
        conditionalClasses_def classObject_def isPlainDangerous_def)

section \<open>Migration warning\<close>

lemma updates_console:
  "console (updates sid w rs) = console w @ warnings_per_change sid (Some (seen w)) rs"
proof (induction rs arbitrary: w)
  case Nil
  show ?case by simp
next
  case (Cons r rs)
  obtain a p where r: "r = (a, p)" by (cases r)
  show ?case
    by (simp add: r Cons.IH update_watch_def on_as_def needs_warning_def array_includes_def)
qed

lemma updates_seen: "seen (updates sid w rs) = (if rs = [] then seen w else as (snd (last rs)))"
proof (induction rs arbitrary: w)
  case Nil
  show ?case by simp
next
  case (Cons r rs)
  obtain a p where r: "r = (a, p)" by (cases r)
  show ?case
    by (simp add: r Cons.IH update_watch_def)
qed

text \<open>
  Claim C6. The watcher on the rendering form runs at set-up and after every change of
  the rendering form, and records the form it has seen. Each run prints exactly one
  warning when the form is \<open>a\<close> or \<open>NuxtLink\<close> and the ambient \<open>href\<close> is not \<open>#\<close>
  followed by the skip-to-content target id, and prints nothing when the \<open>href\<close> is that
  fragment or the form is any other value. An update that leaves the rendering form
  unchanged changes nothing. Over the life of a component the console therefore holds
  exactly one warning for each render whose form differs from the form of the render
  before (the first render counting as a change) and which needs a warning.
\<close>

theorem migration_warning:
  "setup_watch sid a p =
     \<lparr> seen = as p,
       console =
         (if (as p = ''a'' \<or> as p = ''NuxtLink'') \<and> attr a ''href'' \<noteq> JStr (''#'' @ sid)
          then [warning (as p)] else []) \<rparr> \<and>
   (as p \<noteq> seen w \<longrightarrow>
      update_watch sid a p w =
        \<lparr> seen = as p,
          console =
            console w @
              (if (as p = ''a'' \<or> as p = ''NuxtLink'') \<and> attr a ''href'' \<noteq> JStr (''#'' @ sid)
               then [warning (as p)] else []) \<rparr>) \<and>
   (as p = seen w \<longrightarrow> update_watch sid a p w = w) \<and>
   console (lifetime sid r rs) = warnings_per_change sid None (r # rs) \<and>
   seen (lifetime sid r rs) = as (snd (last (r # rs)))"
proof -
  obtain a0 p0 where r: "r = (a0, p0)" by (cases r)
  have first: "console (setup_watch sid a0 p0) =
      (if needs_warning sid a0 (as p0) then [warning (as p0)] else [])"
    by (simp add: setup_watch_def on_as_def needs_warning_def array_includes_def)
  have sn: "seen (setup_watch sid a0 p0) = as p0"
    by (simp add: setup_watch_def)
  have life: "console (lifetime sid r rs) = warnings_per_change sid None (r # rs)"
    by (simp add: lifetime_def r updates_console first sn)
  have last_seen: "seen (lifetime sid r rs) = as (snd (last (r # rs)))"
    by (simp add: lifetime_def r updates_seen sn)
  have steps: "setup_watch sid a p =
     \<lparr> seen = as p,
       console =
         (if (as p = ''a'' \<or> as p = ''NuxtLink'') \<and> attr a ''href'' \<noteq> JStr (''#'' @ sid)
          then [warning (as p)] else []) \<rparr>"
    by (simp add: setup_watch_def on_as_def array_includes_def)
  have upd: "as p \<noteq> seen w \<longrightarrow>
      update_watch sid a p w =
        \<lparr> seen = as p,
          console =
            console w @
              (if (as p = ''a'' \<or> as p = ''NuxtLink'') \<and> attr a ''href'' \<noteq> JStr (''#'' @ sid)
               then [warning (as p)] else []) \<rparr>"
    by (simp add: update_watch_def on_as_def array_includes_def)
  have same: "as p = seen w \<longrightarrow> update_watch sid a p w = w"
    by (simp add: update_watch_def)
  show ?thesis using steps upd same life last_seen by blast
qed

theorem migration_warning_witness:
  "console
     (lifetime ''content''
        ([''href'' \<mapsto> JStr ''/about''], (withDefaults ''filled-dark'' ''medium'') \<lparr> as := ''a'' \<rparr>)
        [([''href'' \<mapsto> JStr ''/about''],
          (withDefaults ''filled-dark'' ''medium'') \<lparr> as := ''NuxtLink'' \<rparr>),
         ([''href'' \<mapsto> JStr ''/about''],
          (withDefaults ''filled-dark'' ''medium'') \<lparr> as := ''NuxtLink'' \<rparr>)]) =
     [''Please use `VLink` with an `href` prop instead of a for the button component'',
      ''Please use `VLink` with an `href` prop instead of NuxtLink for the button component''] \<and>
   console
     (lifetime ''content''
        ([''href'' \<mapsto> JStr ''#content''], (withDefaults ''filled-dark'' ''medium'') \<lparr> as := ''a'' \<rparr>)
        [([''href'' \<mapsto> JStr ''#content''],
          (withDefaults ''filled-dark'' ''medium'') \<lparr> as := ''button'' \<rparr>)]) = [] \<and>
   seen (setup_watch ''content'' [''href'' \<mapsto> JStr ''/about'']
           ((withDefaults ''filled-dark'' ''medium'') \<lparr> as := ''a'' \<rparr>)) = ''a'' \<and>
   update_watch ''content'' [''href'' \<mapsto> JStr ''/about'']
     ((withDefaults ''filled-dark'' ''medium'') \<lparr> as := ''NuxtLink'' \<rparr>)
     \<lparr> seen = ''a'', console = [] \<rparr> =
     \<lparr> seen = ''NuxtLink'',
       console =
         [''Please use `VLink` with an `href` prop instead of NuxtLink for the button component''] \<rparr> \<and>
   update_watch ''content'' [''href'' \<mapsto> JStr ''/about'']
     ((withDefaults ''filled-dark'' ''medium'') \<lparr> as := ''NuxtLink'' \<rparr>)
     \<lparr> seen = ''NuxtLink'', console = [] \<rparr> =
     \<lparr> seen = ''NuxtLink'', console = [] \<rparr>"
  using migration_warning
          [of "''content''" "[''href'' \<mapsto> JStr ''/about'']"
              "(withDefaults ''filled-dark'' ''medium'') \<lparr> as := ''a'' \<rparr>"
              "\<lparr> seen = ''a'', console = [] \<rparr>"
              "([''href'' \<mapsto> JStr ''/about''],
                (withDefaults ''filled-dark'' ''medium'') \<lparr> as := ''a'' \<rparr>)"
              "[([''href'' \<mapsto> JStr ''/about''],
                 (withDefaults ''filled-dark'' ''medium'') \<lparr> as := ''NuxtLink'' \<rparr>),
                ([''href'' \<mapsto> JStr ''/about''],
                 (withDefaults ''filled-dark'' ''medium'') \<lparr> as := ''NuxtLink'' \<rparr>)]"]
        migration_warning
          [of "''content''" "[''href'' \<mapsto> JStr ''/about'']"
              "(withDefaults ''filled-dark'' ''medium'') \<lparr> as := ''NuxtLink'' \<rparr>"
              "\<lparr> seen = ''a'', console = [] \<rparr>"
              "([''href'' \<mapsto> JStr ''#content''],
                (withDefaults ''filled-dark'' ''medium'') \<lparr> as := ''a'' \<rparr>)"
              "[([''href'' \<mapsto> JStr ''#content''],
                 (withDefaults ''filled-dark'' ''medium'') \<lparr> as := ''button'' \<rparr>)]"]
        migration_warning
          [of "''content''" "[''href'' \<mapsto> JStr ''/about'']"
              "(withDefaults ''filled-dark'' ''medium'') \<lparr> as := ''NuxtLink'' \<rparr>"
              "\<lparr> seen = ''NuxtLink'', console = [] \<rparr>"]
  by (simp add: withDefaults_def needs_warning_def attr_def warning_def)

section \<open>The actions of the safety wall\<close>

text \<open>
  Claim C3. The back action sends exactly one analytics event,
  \<open>GO_BACK_FROM_SENSITIVE_RESULT\<close>, whose payload holds the content id and the
  sensitivity reasons joined by commas, and raises no signal. The back button is a
  \<open>VLink\<close> whose \<open>href\<close> is the recorded return-to-search path, or \<open>/\<close> when none is
  recorded, that is, when the store's value is falsy (\<open>undefined\<close>, \<open>null\<close> or the empty
  string).
\<close>

theorem back_action:
  "handleBack p fx =
     fx @ [SendCustomEvent ''GO_BACK_FROM_SENSITIVE_RESULT''
             [(''id'', id_prop p), (''sensitivities'', separated '','' (sensitivity p))]] \<and>
   length (filter is_analytics (handleBack p fx)) = Suc (length (filter is_analytics fx)) \<and>
   filter is_signal (handleBack p fx) = filter is_signal fx \<and>
   back_button_on Mousedown p fx = handleBack p fx \<and>
   is_binding (template back_button_props (back_button_attrs path)) = VLink \<and>
   link_binding (template back_button_props (back_button_attrs path)) ''href'' =
     Some (if truthy path then path else JStr ''/'')"
  by (simp add: handleBack_def join_separated template_def buttonComponent_def linkProps_def
        back_button_props_def back_button_attrs_def withDefaults_def attr_def js_or_def)

theorem back_action_witness:
  "handleBack
     \<lparr> sensitivity = [''sensitive_text'', ''user_reported_sensitive''], id_prop = ''abc'' \<rparr> [] =
     [SendCustomEvent ''GO_BACK_FROM_SENSITIVE_RESULT''
        [(''id'', ''abc''), (''sensitivities'', ''sensitive_text,user_reported_sensitive'')]] \<and>
   link_binding (template back_button_props (back_button_attrs (JStr ''/search?q=cat''))) ''href'' =
     Some (JStr ''/search?q=cat'') \<and>
   link_binding (template back_button_props (back_button_attrs (JStr []))) ''href'' =
     Some (JStr ''/'') \<and>
   link_binding (template back_button_props (back_button_attrs JNull)) ''href'' =
     Some (JStr ''/'')"
  using back_action
          [of "\<lparr> sensitivity = [''sensitive_text'', ''user_reported_sensitive''],
                 id_prop = ''abc'' \<rparr>"
              "[]" "JStr ''/search?q=cat''"]
        back_action [of _ _ "JStr []"]
        back_action [of _ _ "JNull"]
  by simp

text \<open>
  Claim C4. The show action raises exactly one \<open>reveal\<close> signal with no payload and
  sends no analytics event. It does not navigate: the show button is a native \<open>button\<close>
  of type \<open>button\<close> and gets no \<open>href\<close>.
\<close>

theorem show_action:
  "handleShow p fx = fx @ [Emit ''reveal'' []] \<and>
   length (filter is_signal (handleShow p fx)) = Suc (length (filter is_signal fx)) \<and>
   filter is_analytics (handleShow p fx) = filter is_analytics fx \<and>
   show_button_on Click p fx = handleShow p fx \<and>
   is_binding (template show_button_props show_button_attrs) = Native ''button'' \<and>
   type_binding (template show_button_props show_button_attrs) = Some ''button'' \<and>
   link_binding (template show_button_props show_button_attrs) = Map.empty"
  by (simp add: handleShow_def template_def buttonComponent_def linkProps_def typeAttribute_def
        array_includes_def show_button_props_def withDefaults_def)

end
